theory Spec2Isabelle
  imports Complex_Main "HOL-Library.Word" "HOL-Library.Char_ord" "HOL-Library.List_Lexorder"
begin

section \<open>Data model of grafica.py\<close>

text \<open>
  The service has two request handlers, \<open>generate_graphs\<close> and \<open>download_graph\<close>.
  Both are modelled as functions on an explicit world: the files below the working
  directory and a counter of how often an upload stream was handed to the CSV parser.
  The calls into pandas, matplotlib and statsmodels whose results the program cannot
  determine itself (parsing of bytes and of date strings, rendering of pixels, fitting
  of the two forecasting models) are fields of a \<open>library\<close> record; what pandas does
  on the index of a frame (\<open>groupby(...).sum()\<close>, \<open>asfreq\<close>) is written out.
\<close>

type_synonym bytes = "8 word list"

text \<open>A timestamp of the date index, as the number of its calendar day (days since
  1970-01-01, so 2024-01-01 is day 19723). The date column holds calendar dates, without
  a time of day.\<close>

type_synonym date = int

type_synonym series = "(date \<times> int) list"

type_synonym forecast = "(date \<times> real) list"

text \<open>A raised Python exception: its class and \<open>str(e)\<close>.\<close>

datatype exn = Raised (exn_class: string) (exn_message: string)

text \<open>The \<open>detail\<close> of an HTTPException: a text, or a text followed by the rendering
  of a set of strings (the f-string of line 33 interpolates a Python set, whose element
  order is not fixed).\<close>

datatype detail = Text string | TextWithSet string "string set"

text \<open>How a request ends when it does not return: an HTTPException raised by the
  handler, or any other exception, which the framework answers with status 500.\<close>

datatype failure = HTTPException (status_code: nat) detail | Unhandled exn

fun http_status :: "failure \<Rightarrow> nat" where
  "http_status (HTTPException c d) = c"
| "http_status (Unhandled e) = 500"

definition client_error :: "failure \<Rightarrow> bool" where
  "client_error f = (400 \<le> http_status f \<and> http_status f < 500)"

text \<open>One row of the uploaded table, restricted to the three columns the program reads.
  The date cell is kept as read; the quantity is an integer number of grams, so that
  sums are exact. Every cell is present: the empty cells that pandas reads as NaN, and
  quantity columns of floating-point numbers, are outside this model.\<close>

record consumption_record =
  Fecha :: string
  Tipo_de_Alimento :: string
  Cantidad_Consumida :: int

text \<open>The result of \<open>pd.read_csv\<close>: the header (\<open>data.columns\<close>) and the rows. The
  rows are read only after the header was checked to hold the three required names.\<close>

record frame =
  columns :: "string list"
  records :: "consumption_record list"

record upload =
  filename :: string
  content :: bytes

datatype node = File bytes | Directory

record world =
  files :: "string \<rightharpoonup> node"
  csv_reads :: nat

record library =
  read_csv :: "bytes \<Rightarrow> exn + frame"
  to_datetime :: "string \<Rightarrow> date option"
  render_pie :: "(string \<times> int) list \<Rightarrow> exn + bytes"
  render_line :: "series \<Rightarrow> exn + bytes"
  sarimax_fit :: "series \<Rightarrow> exn + (nat \<Rightarrow> real)"
  holt_winters_fit :: "series \<Rightarrow> exn + (nat \<Rightarrow> real)"
  render_predictions :: "series \<Rightarrow> forecast \<Rightarrow> forecast \<Rightarrow> exn + bytes"

text \<open>The three paths the handler returns.\<close>

record charts =
  pie_chart :: string
  line_chart :: string
  prediction_chart :: string

section \<open>Paths and files\<close>

definition GRAPH_PATH :: string where
  "GRAPH_PATH = ''./generated_graphs''"

text \<open>\<open>os.path.join\<close> on two components (POSIX): an absolute second component
  replaces the first.\<close>

definition path_join :: "string \<Rightarrow> string \<Rightarrow> string" where
  "path_join a b =
     (if b \<noteq> [] \<and> hd b = CHR ''/'' then b
      else if a = [] \<or> last a = CHR ''/'' then a @ b
      else a @ ''/'' @ b)"

text \<open>\<open>str.endswith\<close>.\<close>

definition endswith :: "string \<Rightarrow> string \<Rightarrow> bool" where
  "endswith s suf = (length suf \<le> length s \<and> drop (length s - length suf) s = suf)"

text \<open>\<open>plt.savefig(path)\<close> of an image already rendered to bytes.\<close>

definition savefig :: "world \<Rightarrow> string \<Rightarrow> bytes \<Rightarrow> world" where
  "savefig w path png = w\<lparr>files := (files w)(path \<mapsto> File png)\<rparr>"

section \<open>The operations of pandas on the frame\<close>

definition required_columns :: "string set" where
  "required_columns = {''Fecha'', ''Tipo de Alimento'', ''Cantidad Consumida (gr)''}"

text \<open>\<open>pd.to_datetime\<close> on a column: every cell is converted, and the first cell that
  is no date raises.\<close>

fun to_datetime_column :: "(string \<Rightarrow> date option) \<Rightarrow> string list \<Rightarrow> exn + date list" where
  "to_datetime_column conv [] = Inr []"
| "to_datetime_column conv (c # cs) =
     (case conv c of
        None \<Rightarrow> Inl (Raised ''ValueError'' c)
      | Some d \<Rightarrow>
          (case to_datetime_column conv cs of
             Inl e \<Rightarrow> Inl e
           | Inr ds \<Rightarrow> Inr (d # ds)))"

text \<open>\<open>groupby(key)[col].sum()\<close>: one entry per distinct key, keys in sorted order,
  each with the sum of its rows.\<close>

definition groupby_sum :: "(string \<times> int) list \<Rightarrow> (string \<times> int) list" where
  "groupby_sum rows =
     map (\<lambda>k. (k, sum_list (map snd (filter (\<lambda>r. fst r = k) rows))))
         (sort (remdups (map fst rows)))"

text \<open>\<open>pd.date_range(start, end, freq='D')\<close>.\<close>

definition date_range :: "date \<Rightarrow> date \<Rightarrow> date list" where
  "date_range start end = [start..end]"

text \<open>\<open>reindex(target, fill_value=fill)\<close> with no fill method: an index with duplicate
  labels cannot be reindexed; the order of the labels plays no part.\<close>

definition reindex :: "series \<Rightarrow> date list \<Rightarrow> int \<Rightarrow> exn + series" where
  "reindex s target fill =
     (if \<not> distinct (map fst s)
      then Inl (Raised ''ValueError'' ''cannot reindex on an axis with duplicate labels'')
      else Inr (map (\<lambda>d. (d, case map_of s d of Some v \<Rightarrow> v | None \<Rightarrow> fill)) target))"

text \<open>\<open>asfreq('D', fill_value=fill)\<close>: an empty frame stays empty, any other is
  reindexed to the daily range from its smallest to its largest date. Of the reindexed
  frame the program reads the quantity column only, so the series is that column.\<close>

definition asfreq :: "series \<Rightarrow> int \<Rightarrow> exn + series" where
  "asfreq s fill =
     (if s = [] then Inr []
      else reindex s (date_range (Min (set (map fst s))) (Max (set (map fst s)))) fill)"

text \<open>A forecast of \<open>steps\<close> steps by a model fitted on a daily series: the fitted model
  gives the predicted value of each step ahead, and the index of the forecast continues
  the index of the sample by its frequency. A sample without observations is rejected.\<close>

definition forecast_steps ::
  "(series \<Rightarrow> exn + (nat \<Rightarrow> real)) \<Rightarrow> series \<Rightarrow> nat \<Rightarrow> exn + forecast" where
  "forecast_steps fit s steps =
     (if s = [] then Inl (Raised ''ValueError'' ''empty sample'')
      else case fit s of
             Inl e \<Rightarrow> Inl e
           | Inr mean \<Rightarrow> Inr (map (\<lambda>k. (fst (last s) + int k, mean k)) [1..<Suc steps]))"

section \<open>The two handlers\<close>

definition pie_path :: string where
  "pie_path = path_join GRAPH_PATH ''grafica_pastel.png''"

definition line_path :: string where
  "line_path = path_join GRAPH_PATH ''grafica_linea.png''"

definition pred_path :: string where
  "pred_path = path_join GRAPH_PATH ''grafica_predicciones.png''"

text \<open>Lines 59 to 85: both forecasts, the third chart and the returned structure.\<close>

definition forecast_and_return ::
  "library \<Rightarrow> world \<Rightarrow> series \<Rightarrow> world \<times> (failure + charts)" where
  "forecast_and_return lib w daily_consumption =
     (case forecast_steps (sarimax_fit lib) daily_consumption 30 of
        Inl e \<Rightarrow> (w, Inl (Unhandled e))
      | Inr sarima_forecast \<Rightarrow>
     (case forecast_steps (holt_winters_fit lib) daily_consumption 30 of
        Inl e \<Rightarrow> (w, Inl (Unhandled e))
      | Inr holt_forecast \<Rightarrow>
     (case render_predictions lib daily_consumption sarima_forecast holt_forecast of
        Inl e \<Rightarrow> (w, Inl (Unhandled e))
      | Inr png \<Rightarrow>
          (savefig w pred_path png,
           Inr \<lparr>pie_chart = pie_path, line_chart = line_path,
                prediction_chart = pred_path\<rparr>))))"

text \<open>Lines 35 to 57: the date index, the category totals and the pie chart, the daily
  series and the line chart, in the order of the source.\<close>

definition process_data ::
  "library \<Rightarrow> world \<Rightarrow> frame \<Rightarrow> world \<times> (failure + charts)" where
  "process_data lib w data =
     (case to_datetime_column (to_datetime lib) (map Fecha (records data)) of
        Inl e \<Rightarrow> (w, Inl (Unhandled e))
      | Inr index \<Rightarrow>
     (let tipo_alimento_totales =
            groupby_sum (map (\<lambda>r. (Tipo_de_Alimento r, Cantidad_Consumida r)) (records data))
      in case render_pie lib tipo_alimento_totales of
        Inl e \<Rightarrow> (w, Inl (Unhandled e))
      | Inr pie_png \<Rightarrow>
     (let w1 = savefig w pie_path pie_png
      in case asfreq (zip index (map Cantidad_Consumida (records data))) 0 of
        Inl e \<Rightarrow> (w1, Inl (Unhandled e))
      | Inr daily_consumption \<Rightarrow>
     (case render_line lib daily_consumption of
        Inl e \<Rightarrow> (w1, Inl (Unhandled e))
      | Inr line_png \<Rightarrow>
          forecast_and_return lib (savefig w1 line_path line_png) daily_consumption))))"

text \<open>\<open>generate_graphs\<close>, lines 19 to 85.\<close>

definition generate_graphs ::
  "library \<Rightarrow> world \<Rightarrow> upload \<Rightarrow> world \<times> (failure + charts)" where
  "generate_graphs lib w file =
     (if \<not> endswith (filename file) ''.csv''
      then (w, Inl (HTTPException 400 (Text ''El archivo debe ser un CSV.'')))
      else
        (let w0 = w\<lparr>csv_reads := Suc (csv_reads w)\<rparr>
         in case read_csv lib (content file) of
           Inl e \<Rightarrow>
             (w0, Inl (HTTPException 400 (Text (''Error al leer el archivo: '' @ exn_message e))))
         | Inr data \<Rightarrow>
             if \<not> required_columns \<subseteq> set (columns data)
             then (w0, Inl (HTTPException 400
                     (TextWithSet ''El archivo debe contener las columnas: '' required_columns)))
             else process_data lib w0 data))"

text \<open>\<open>download_graph\<close>, lines 89 to 93. \<open>os.path.exists\<close> holds of a directory too,
  which the file response then refuses. The character 225 of the message is the
  accented a of its first word.\<close>

definition download_graph :: "world \<Rightarrow> string \<Rightarrow> failure + bytes" where
  "download_graph w name =
     (let filepath = path_join GRAPH_PATH name
      in case files w filepath of
           None \<Rightarrow> Inl (HTTPException 404 (Text (''Gr'' @ [char_of (225::nat)] @ ''fica no encontrada.'')))
         | Some Directory \<Rightarrow> Inl (Unhandled (Raised ''RuntimeError'' (filepath @ '' is not a file.'')))
         | Some (File b) \<Rightarrow> Inr b)"

section \<open>Sample inputs\<close>

text \<open>A library for the concrete requests below: the parser returns a given frame, three
  ISO dates are understood, every chart renders to one byte and both models fit.\<close>

definition sample_dates :: "string \<Rightarrow> date option" where
  "sample_dates c =
     (if c = ''2024-01-01'' then Some 19723
      else if c = ''2024-01-02'' then Some 19724
      else if c = ''2024-01-03'' then Some 19725
      else None)"

definition sample_library :: "frame \<Rightarrow> library" where
  "sample_library data =
     \<lparr>read_csv = (\<lambda>b. Inr data),
      to_datetime = sample_dates,
      render_pie = (\<lambda>totals. Inr [1]),
      render_line = (\<lambda>daily. Inr [2]),
      sarimax_fit = (\<lambda>daily. Inr (\<lambda>k. 0)),
      holt_winters_fit = (\<lambda>daily. Inr (\<lambda>k. 0)),
      render_predictions = (\<lambda>daily sarima holt. Inr [3])\<rparr>"

text \<open>The same library with a seasonal autoregressive fit that does not converge.\<close>

definition failing_fit_library :: "frame \<Rightarrow> library" where
  "failing_fit_library data =
     (sample_library data)
       \<lparr>sarimax_fit := (\<lambda>daily. Inl (Raised ''LinAlgError'' ''did not converge''))\<rparr>"

definition header :: "string list" where
  "header = [''Fecha'', ''Tipo de Alimento'', ''Cantidad Consumida (gr)'']"

text \<open>The rows of the example of the specification.\<close>

definition fruit_frame :: frame where
  "fruit_frame =
     \<lparr>columns = header,
      records =
        [\<lparr>Fecha = ''2024-01-01'', Tipo_de_Alimento = ''fruit'', Cantidad_Consumida = 100\<rparr>,
         \<lparr>Fecha = ''2024-01-03'', Tipo_de_Alimento = ''fruit'', Cantidad_Consumida = 50\<rparr>]\<rparr>"



text \<open>A table without the date column.\<close>

definition undated_frame :: frame where
  "undated_frame =
     \<lparr>columns = [''Tipo de Alimento'', ''Cantidad Consumida (gr)''],
      records = []\<rparr>"

text \<open>A table whose second date is no date.\<close>

definition misdated_frame :: frame where
  "misdated_frame =
     \<lparr>columns = header,
      records =
        [\<lparr>Fecha = ''2024-01-01'', Tipo_de_Alimento = ''fruit'', Cantidad_Consumida = 100\<rparr>,
         \<lparr>Fecha = ''ayer'', Tipo_de_Alimento = ''fruit'', Cantidad_Consumida = 50\<rparr>]\<rparr>"

definition csv_upload :: upload where
  "csv_upload = \<lparr>filename = ''consumo.csv'', content = [70, 101, 99, 104, 97]\<rparr>"

definition xlsx_upload :: upload where
  "xlsx_upload = \<lparr>filename = ''consumo.xlsx'', content = [80, 75, 3, 4]\<rparr>"

text \<open>The world after start-up: the output directory exists and is empty.\<close>

definition initial_world :: world where
  "initial_world = \<lparr>files = [GRAPH_PATH \<mapsto> Directory], csv_reads = 0\<rparr>"

section \<open>Properties of the operations\<close>

lemmas path_defs = pie_path_def line_path_def pred_path_def path_join_def GRAPH_PATH_def


lemma to_datetime_column_unparseable:
  "c \<in> set cs \<Longrightarrow> conv c = None \<Longrightarrow> \<exists>e. to_datetime_column conv cs = Inl e"
  by (induction cs) (auto split: option.splits sum.splits)

lemma forecast_and_return_csv_reads:
  "csv_reads (fst (forecast_and_return lib w daily)) = csv_reads w"
  by (auto simp: forecast_and_return_def savefig_def split: sum.splits)

lemma process_data_csv_reads:
  "csv_reads (fst (process_data lib w data)) = csv_reads w"
  by (auto simp: process_data_def Let_def forecast_and_return_csv_reads savefig_def
      split: sum.splits)

lemma generate_graphs_reads_csv:
  "endswith (filename file) ''.csv'' \<Longrightarrow>
   csv_reads (fst (generate_graphs lib w file)) = Suc (csv_reads w)"
  by (auto simp: generate_graphs_def Let_def process_data_csv_reads split: sum.splits)

section \<open>Validation of the upload\<close>

text \<open>
  Claim C6. An upload whose file name does not end in \<open>.csv\<close> is refused with the
  client error 400, and the request ends there: the world is the one it started in, so
  no file was written and the upload was not handed to the CSV parser, whatever the
  library would have made of its content.
\<close>

theorem generate_graphs_rejects_extension:
  assumes "\<not> endswith (filename file) ''.csv''"
  shows "generate_graphs lib w file =
           (w, Inl (HTTPException 400 (Text ''El archivo debe ser un CSV.'')))
         \<and> client_error (HTTPException 400 (Text ''El archivo debe ser un CSV.''))
         \<and> csv_reads (fst (generate_graphs lib w file)) = csv_reads w"
  using assms by (simp add: generate_graphs_def client_error_def)

theorem generate_graphs_rejects_extension_witness:
  "\<not> endswith (filename xlsx_upload) ''.csv''
   \<and> generate_graphs (sample_library fruit_frame) initial_world xlsx_upload =
       (initial_world, Inl (HTTPException 400 (Text ''El archivo debe ser un CSV.'')))
   \<and> csv_reads (fst (generate_graphs (sample_library fruit_frame) initial_world xlsx_upload)) = 0"
proof -
  have h: "\<not> endswith (filename xlsx_upload) ''.csv''"
    by (simp add: xlsx_upload_def endswith_def)
  show ?thesis
    using h generate_graphs_rejects_extension [OF h, of "sample_library fruit_frame" initial_world]
    by (simp add: initial_world_def)
qed

section \<open>The example of the specification\<close>

text \<open>
  Claim C7. The rows (2024-01-01, fruit, 100) and (2024-01-03, fruit, 50): their dates are
  the days 19723 and 19725, the daily series has the three days 19723 to 19725 with the
  values 100, 0 and 50, and the category totals are fruit: 150.
\<close>

theorem series_builder_example:
  "to_datetime_column sample_dates (map Fecha (records fruit_frame)) = Inr [19723, 19725]
   \<and> asfreq (zip [19723, 19725] (map Cantidad_Consumida (records fruit_frame))) 0 =
       Inr [(19723, 100), (19724, 0), (19725, 50)]
   \<and> groupby_sum (map (\<lambda>r. (Tipo_de_Alimento r, Cantidad_Consumida r)) (records fruit_frame)) =
       [(''fruit'', 150)]"
  by (simp add: fruit_frame_def sample_dates_def asfreq_def reindex_def date_range_def
      groupby_sum_def)

section \<open>Missing columns\<close>

text \<open>
  Claim C1, as stated, fails: a table that lacks only the date column is refused with
  status 400, but the set the message names is the set of all three required columns,
  not the set of the missing ones, which is the date column alone.
\<close>

theorem missing_columns_message_counterexample:
  "snd (generate_graphs (sample_library undated_frame) initial_world csv_upload) =
     Inl (HTTPException 400
       (TextWithSet ''El archivo debe contener las columnas: '' required_columns))
   \<and> required_columns - set (columns undated_frame) = {''Fecha''}
   \<and> required_columns \<noteq> required_columns - set (columns undated_frame)"
  by (auto simp: generate_graphs_def sample_library_def undated_frame_def csv_upload_def
      endswith_def required_columns_def)

text \<open>
  Claim C1, amended. A \<open>.csv\<close> upload that parses and lacks any of the three required
  columns is refused with the client error 400, and the message names the set of all
  three required columns, of which the missing ones are a part. No file is written.
\<close>

theorem generate_graphs_missing_columns:
  assumes "endswith (filename file) ''.csv''"
    and "read_csv lib (content file) = Inr data"
    and "\<not> required_columns \<subseteq> set (columns data)"
  shows "snd (generate_graphs lib w file) =
           Inl (HTTPException 400
             (TextWithSet ''El archivo debe contener las columnas: '' required_columns))
         \<and> client_error (HTTPException 400
             (TextWithSet ''El archivo debe contener las columnas: '' required_columns))
         \<and> required_columns - set (columns data) \<subseteq> required_columns
         \<and> files (fst (generate_graphs lib w file)) = files w"
  using assms by (simp add: generate_graphs_def client_error_def Let_def)

theorem generate_graphs_missing_columns_witness:
  "endswith (filename csv_upload) ''.csv''
   \<and> read_csv (sample_library undated_frame) (content csv_upload) = Inr undated_frame
   \<and> \<not> required_columns \<subseteq> set (columns undated_frame)
   \<and> snd (generate_graphs (sample_library undated_frame) initial_world csv_upload) =
       Inl (HTTPException 400
         (TextWithSet ''El archivo debe contener las columnas: '' required_columns))"
proof -
  have h1: "endswith (filename csv_upload) ''.csv''"
    by (simp add: csv_upload_def endswith_def)
  have h2: "read_csv (sample_library undated_frame) (content csv_upload) = Inr undated_frame"
    by (simp add: sample_library_def)
  have h3: "\<not> required_columns \<subseteq> set (columns undated_frame)"
    by (simp add: required_columns_def undated_frame_def)
  show ?thesis
    using h1 h2 h3 generate_graphs_missing_columns [OF h1 h2 h3, of initial_world] by simp
qed

section \<open>Dates that are no dates\<close>

text \<open>
  Claim C8. When the parsed table has a row whose date cell the conversion rejects, the
  request fails: it returns no structure of chart paths, and the files are those from
  before the request, so no chart of this request exists.
\<close>

theorem generate_graphs_unparseable_date:
  assumes "read_csv lib (content file) = Inr data"
    and "r \<in> set (records data)"
    and "to_datetime lib (Fecha r) = None"
  shows "\<exists>f. snd (generate_graphs lib w file) = Inl f
           \<and> files (fst (generate_graphs lib w file)) = files w"
proof -
  from assms(2,3) obtain e where
    "to_datetime_column (to_datetime lib) (map Fecha (records data)) = Inl e"
    using to_datetime_column_unparseable [of "Fecha r" "map Fecha (records data)" "to_datetime lib"]
    by auto
  with assms(1) show ?thesis
    by (simp add: generate_graphs_def process_data_def Let_def)
qed

theorem generate_graphs_unparseable_date_witness:
  "read_csv (sample_library misdated_frame) (content csv_upload) = Inr misdated_frame
   \<and> \<lparr>Fecha = ''ayer'', Tipo_de_Alimento = ''fruit'', Cantidad_Consumida = 50\<rparr>
       \<in> set (records misdated_frame)
   \<and> to_datetime (sample_library misdated_frame) ''ayer'' = None
   \<and> (\<exists>f. snd (generate_graphs (sample_library misdated_frame) initial_world csv_upload) = Inl f
         \<and> files (fst (generate_graphs (sample_library misdated_frame) initial_world csv_upload))
             = files initial_world)"
proof -
  let ?r = "\<lparr>Fecha = ''ayer'', Tipo_de_Alimento = ''fruit'', Cantidad_Consumida = 50\<rparr>"
  have h1: "read_csv (sample_library misdated_frame) (content csv_upload) = Inr misdated_frame"
    by (simp add: sample_library_def)
  have h2: "?r \<in> set (records misdated_frame)"
    by (simp add: misdated_frame_def)
  have h3: "to_datetime (sample_library misdated_frame) (Fecha ?r) = None"
    by (simp add: sample_library_def sample_dates_def)
  show ?thesis
    using h1 h2 h3 generate_graphs_unparseable_date [OF h1 h2 h3, of initial_world] by simp
qed

section \<open>Grouping and reindexing\<close>














section \<open>A request that returns\<close>

text \<open>Every step of a request that returns the chart paths has succeeded, and the world
  it leaves is the initial one after one parser call and three \<open>savefig\<close> calls.\<close>

lemma forecast_and_return_Inr:
  assumes "forecast_and_return lib w daily = (w', Inr res)"
  shows "\<exists>sarima holt png.
           forecast_steps (sarimax_fit lib) daily 30 = Inr sarima
         \<and> forecast_steps (holt_winters_fit lib) daily 30 = Inr holt
         \<and> render_predictions lib daily sarima holt = Inr png
         \<and> w' = savefig w pred_path png
         \<and> res = \<lparr>pie_chart = pie_path, line_chart = line_path, prediction_chart = pred_path\<rparr>"
  using assms by (auto simp: forecast_and_return_def split: sum.splits)

lemma process_data_Inr:
  assumes "process_data lib w data = (w', Inr res)"
  shows "\<exists>index pie daily line sarima holt png.
           to_datetime_column (to_datetime lib) (map Fecha (records data)) = Inr index
         \<and> render_pie lib (groupby_sum (map (\<lambda>r. (Tipo_de_Alimento r, Cantidad_Consumida r))
               (records data))) = Inr pie
         \<and> asfreq (zip index (map Cantidad_Consumida (records data))) 0 = Inr daily
         \<and> render_line lib daily = Inr line
         \<and> forecast_steps (sarimax_fit lib) daily 30 = Inr sarima
         \<and> forecast_steps (holt_winters_fit lib) daily 30 = Inr holt
         \<and> render_predictions lib daily sarima holt = Inr png
         \<and> w' = savefig (savefig (savefig w pie_path pie) line_path line) pred_path png
         \<and> res = \<lparr>pie_chart = pie_path, line_chart = line_path, prediction_chart = pred_path\<rparr>"
  using assms
  by (auto simp: process_data_def Let_def split: sum.splits dest!: forecast_and_return_Inr)

lemma generate_graphs_Inr:
  assumes "generate_graphs lib w file = (w', Inr res)"
  shows "\<exists>data. endswith (filename file) ''.csv''
         \<and> read_csv lib (content file) = Inr data
         \<and> required_columns \<subseteq> set (columns data)
         \<and> process_data lib (w\<lparr>csv_reads := Suc (csv_reads w)\<rparr>) data = (w', Inr res)"
  using assms by (auto simp: generate_graphs_def Let_def split: if_splits sum.splits)

lemma sample_request:
  "generate_graphs (sample_library fruit_frame) initial_world csv_upload =
     (savefig (savefig (savefig (initial_world\<lparr>csv_reads := 1\<rparr>) pie_path [1]) line_path [2])
        pred_path [3],
      Inr \<lparr>pie_chart = pie_path, line_chart = line_path, prediction_chart = pred_path\<rparr>)"
  by (simp add: generate_graphs_def process_data_def forecast_and_return_def sample_library_def
      fruit_frame_def header_def csv_upload_def initial_world_def endswith_def required_columns_def
      sample_dates_def groupby_sum_def asfreq_def reindex_def date_range_def forecast_steps_def)

section \<open>Conservation of the consumed quantity\<close>



section \<open>Forecasts\<close>







section \<open>Downloads\<close>

lemma chart_paths_distinct:
  "pie_path \<noteq> line_path" "pie_path \<noteq> pred_path" "line_path \<noteq> pred_path"
  by (simp_all add: path_defs)

text \<open>Reading after writing: the download of a name returns what was last saved at its
  path, and saving at another path does not change it.\<close>

lemma download_after_savefig:
  "path_join GRAPH_PATH name = path \<Longrightarrow> download_graph (savefig w path png) name = Inr png"
  by (simp add: download_graph_def savefig_def)

lemma download_other_savefig:
  "path_join GRAPH_PATH name \<noteq> path \<Longrightarrow>
   download_graph (savefig w path png) name = download_graph w name"
  by (simp add: download_graph_def savefig_def)

text \<open>
  Claim C5. A name whose path below the output directory holds nothing is answered with
  status 404. After a request that returned the chart paths, the world is the one left by
  its three \<open>savefig\<close> calls, the three file names resolve to the returned paths, and
  the download of each returns the very bytes that were saved there.
\<close>

theorem download_graph_contract:
  "(files w (path_join GRAPH_PATH name) = None \<longrightarrow>
      download_graph w name =
        Inl (HTTPException 404 (Text (''Gr'' @ [char_of (225::nat)] @ ''fica no encontrada.''))))
   \<and> (generate_graphs lib w0 file = (w, Inr res) \<longrightarrow>
        (\<exists>pie line pred.
           w = savefig (savefig (savefig (w0\<lparr>csv_reads := Suc (csv_reads w0)\<rparr>) pie_path pie)
                 line_path line) pred_path pred
         \<and> pie_chart res = path_join GRAPH_PATH ''grafica_pastel.png''
         \<and> line_chart res = path_join GRAPH_PATH ''grafica_linea.png''
         \<and> prediction_chart res = path_join GRAPH_PATH ''grafica_predicciones.png''
         \<and> download_graph w ''grafica_pastel.png'' = Inr pie
         \<and> download_graph w ''grafica_linea.png'' = Inr line
         \<and> download_graph w ''grafica_predicciones.png'' = Inr pred))"
proof (intro conjI impI)
  assume "files w (path_join GRAPH_PATH name) = None"
  then show "download_graph w name =
        Inl (HTTPException 404 (Text (''Gr'' @ [char_of (225::nat)] @ ''fica no encontrada.'')))"
    by (simp add: download_graph_def)
next
  assume gen: "generate_graphs lib w0 file = (w, Inr res)"
  from generate_graphs_Inr [OF gen] obtain data where
    "process_data lib (w0\<lparr>csv_reads := Suc (csv_reads w0)\<rparr>) data = (w, Inr res)"
    by blast
  from process_data_Inr [OF this] obtain pie line pred where
    w: "w = savefig (savefig (savefig (w0\<lparr>csv_reads := Suc (csv_reads w0)\<rparr>) pie_path pie)
                 line_path line) pred_path pred"
    and res: "res = \<lparr>pie_chart = pie_path, line_chart = line_path, prediction_chart = pred_path\<rparr>"
    by blast
  have "download_graph w ''grafica_pastel.png'' = Inr pie"
    "download_graph w ''grafica_linea.png'' = Inr line"
    "download_graph w ''grafica_predicciones.png'' = Inr pred"
    unfolding w by (simp_all add: download_graph_def savefig_def path_defs)
  with w res show "\<exists>pie line pred.
           w = savefig (savefig (savefig (w0\<lparr>csv_reads := Suc (csv_reads w0)\<rparr>) pie_path pie)
                 line_path line) pred_path pred
         \<and> pie_chart res = path_join GRAPH_PATH ''grafica_pastel.png''
         \<and> line_chart res = path_join GRAPH_PATH ''grafica_linea.png''
         \<and> prediction_chart res = path_join GRAPH_PATH ''grafica_predicciones.png''
         \<and> download_graph w ''grafica_pastel.png'' = Inr pie
         \<and> download_graph w ''grafica_linea.png'' = Inr line
         \<and> download_graph w ''grafica_predicciones.png'' = Inr pred"
    by (auto simp: pie_path_def line_path_def pred_path_def)
qed

theorem download_graph_contract_witness:
  "files (savefig (savefig (savefig (initial_world\<lparr>csv_reads := 1\<rparr>) pie_path [1]) line_path [2])
        pred_path [3]) (path_join GRAPH_PATH ''otra.png'') = None
   \<and> generate_graphs (sample_library fruit_frame) initial_world csv_upload =
       (savefig (savefig (savefig (initial_world\<lparr>csv_reads := 1\<rparr>) pie_path [1]) line_path [2])
          pred_path [3],
        Inr \<lparr>pie_chart = pie_path, line_chart = line_path, prediction_chart = pred_path\<rparr>)
   \<and> download_graph (savefig (savefig (savefig (initial_world\<lparr>csv_reads := 1\<rparr>) pie_path [1])
         line_path [2]) pred_path [3]) ''otra.png'' =
       Inl (HTTPException 404 (Text (''Gr'' @ [char_of (225::nat)] @ ''fica no encontrada.'')))
   \<and> (\<exists>pie line pred.
         download_graph (savefig (savefig (savefig (initial_world\<lparr>csv_reads := 1\<rparr>) pie_path [1])
           line_path [2]) pred_path [3]) ''grafica_pastel.png'' = Inr pie
       \<and> download_graph (savefig (savefig (savefig (initial_world\<lparr>csv_reads := 1\<rparr>) pie_path [1])
           line_path [2]) pred_path [3]) ''grafica_linea.png'' = Inr line
       \<and> download_graph (savefig (savefig (savefig (initial_world\<lparr>csv_reads := 1\<rparr>) pie_path [1])
           line_path [2]) pred_path [3]) ''grafica_predicciones.png'' = Inr pred)"
proof -
  let ?w = "savefig (savefig (savefig (initial_world\<lparr>csv_reads := 1\<rparr>) pie_path [1]) line_path [2])
        pred_path [3]"
  let ?res = "\<lparr>pie_chart = pie_path, line_chart = line_path, prediction_chart = pred_path\<rparr>"
  have h1: "files ?w (path_join GRAPH_PATH ''otra.png'') = None"
    by (simp add: savefig_def initial_world_def path_defs)
  have h2: "generate_graphs (sample_library fruit_frame) initial_world csv_upload = (?w, Inr ?res)"
    by (rule sample_request)
  show ?thesis
    using h1 h2
      download_graph_contract [of ?w "''otra.png''" "sample_library fruit_frame" initial_world
        csv_upload ?res]
    by blast
qed

section \<open>Failures after the first charts\<close>

text \<open>
  Claim C9. When the upload is valid, the first two charts are rendered and one of the two
  forecasting calls fails, the request ends in an unhandled failure and returns no chart
  paths, while the pie chart and the line chart it saved are on disk; the file of the
  prediction chart is what it was before the request.
\<close>

theorem forecast_failure_keeps_charts:
  assumes "endswith (filename file) ''.csv''"
    and "read_csv lib (content file) = Inr data"
    and "required_columns \<subseteq> set (columns data)"
    and "to_datetime_column (to_datetime lib) (map Fecha (records data)) = Inr index"
    and "render_pie lib (groupby_sum (map (\<lambda>r. (Tipo_de_Alimento r, Cantidad_Consumida r))
           (records data))) = Inr pie"
    and "asfreq (zip index (map Cantidad_Consumida (records data))) 0 = Inr daily"
    and "render_line lib daily = Inr line"
    and "(\<exists>e. forecast_steps (sarimax_fit lib) daily 30 = Inl e)
         \<or> (\<exists>e. forecast_steps (holt_winters_fit lib) daily 30 = Inl e)"
  shows "\<exists>e. generate_graphs lib w file =
             (savefig (savefig (w\<lparr>csv_reads := Suc (csv_reads w)\<rparr>) pie_path pie) line_path line,
              Inl (Unhandled e))
           \<and> files (fst (generate_graphs lib w file)) pie_path = Some (File pie)
           \<and> files (fst (generate_graphs lib w file)) line_path = Some (File line)
           \<and> files (fst (generate_graphs lib w file)) pred_path = files w pred_path"
proof -
  let ?w2 = "savefig (savefig (w\<lparr>csv_reads := Suc (csv_reads w)\<rparr>) pie_path pie) line_path line"
  have run: "generate_graphs lib w file = forecast_and_return lib ?w2 daily"
    using assms(1-7) by (simp add: generate_graphs_def process_data_def Let_def)
  have "\<exists>e. forecast_and_return lib ?w2 daily = (?w2, Inl (Unhandled e))"
    using assms(8)
    by (cases "forecast_steps (sarimax_fit lib) daily 30") (auto simp: forecast_and_return_def)
  then obtain e where "forecast_and_return lib ?w2 daily = (?w2, Inl (Unhandled e))" ..
  with run have "generate_graphs lib w file = (?w2, Inl (Unhandled e))" by simp
  moreover have "files ?w2 pie_path = Some (File pie)" "files ?w2 line_path = Some (File line)"
    "files ?w2 pred_path = files w pred_path"
    using chart_paths_distinct by (simp_all add: savefig_def)
  ultimately show ?thesis by simp
qed

theorem forecast_failure_keeps_charts_witness:
  "endswith (filename csv_upload) ''.csv''
   \<and> (\<exists>e. forecast_steps (sarimax_fit (failing_fit_library fruit_frame))
          [(19723, 100), (19724, 0), (19725, 50)] 30 = Inl e)
   \<and> (\<exists>e. generate_graphs (failing_fit_library fruit_frame) initial_world csv_upload =
          (savefig (savefig (initial_world\<lparr>csv_reads := Suc (csv_reads initial_world)\<rparr>)
             pie_path [1]) line_path [2],
           Inl (Unhandled e)))"
proof -
  let ?lib = "failing_fit_library fruit_frame"
  let ?daily = "[(19723, 100), (19724, 0), (19725, 50)] :: series"
  have h1: "endswith (filename csv_upload) ''.csv''"
    by (simp add: csv_upload_def endswith_def)
  have h2: "read_csv ?lib (content csv_upload) = Inr fruit_frame"
    by (simp add: failing_fit_library_def sample_library_def)
  have h3: "required_columns \<subseteq> set (columns fruit_frame)"
    by (simp add: required_columns_def fruit_frame_def header_def)
  have h4: "to_datetime_column (to_datetime ?lib) (map Fecha (records fruit_frame)) =
              Inr [19723, 19725]"
    by (simp add: failing_fit_library_def sample_library_def fruit_frame_def sample_dates_def)
  have h5: "render_pie ?lib (groupby_sum (map (\<lambda>r. (Tipo_de_Alimento r, Cantidad_Consumida r))
           (records fruit_frame))) = Inr [1]"
    by (simp add: failing_fit_library_def sample_library_def)
  have h6: "asfreq (zip [19723, 19725] (map Cantidad_Consumida (records fruit_frame))) 0 = Inr ?daily"
    by (simp add: fruit_frame_def asfreq_def reindex_def date_range_def)
  have h7: "render_line ?lib ?daily = Inr [2]"
    by (simp add: failing_fit_library_def sample_library_def)
  have h8: "(\<exists>e. forecast_steps (sarimax_fit ?lib) ?daily 30 = Inl e)
         \<or> (\<exists>e. forecast_steps (holt_winters_fit ?lib) ?daily 30 = Inl e)"
    by (simp add: failing_fit_library_def sample_library_def forecast_steps_def)
  have h8': "\<exists>e. forecast_steps (sarimax_fit ?lib) ?daily 30 = Inl e"
    by (simp add: failing_fit_library_def sample_library_def forecast_steps_def)
  show ?thesis
    using h1 h8' forecast_failure_keeps_charts [OF h1 h2 h3 h4 h5 h6 h7 h8, of initial_world]
    by blast
qed

section \<open>Rows of the same day, rows out of order\<close>




end
